theory Spec2Isabelle
  imports Complex_Main
begin

section \<open>Domain limits (class \<open>_GBS_Limites\<close>)\<close>

text \<open>
  The notebook computes with binary floating-point numbers.  The embedding works over the
  exact reals: every constant is the decimal the source writes, every arithmetic operation
  is the exact one, and the exceptions Python raises on a real argument (\<open>math.sqrt\<close> of a
  negative number, \<open>math.log\<close> of a non-positive number, a zero divisor) are results of
  the model.  Rounding, overflow, infinities and NaN are outside the model.
\<close>

definition MAX32 :: real where "MAX32 = 2147483248"
definition MIN_T :: real where "MIN_T = 1 / 1000"
definition MIN_X :: real where "MIN_X = 1 / 100"
definition MIN_FS :: real where "MIN_FS = 1 / 100"
definition MIN_V :: real where "MIN_V = 5 / 1000"
definition MAX_T :: real where "MAX_T = 100"
definition MAX_X :: real where "MAX_X = MAX32"
definition MAX_FS :: real where "MAX_FS = MAX32"
definition MIN_b :: real where "MIN_b = - 1"
definition MIN_r :: real where "MIN_r = - 1"
definition MAX_b :: real where "MAX_b = 1"
definition MAX_r :: real where "MAX_r = 1"
definition MAX_V :: real where "MAX_V = 1"

section \<open>Errors and diagnostics\<close>

text \<open>
  \<open>ValueError\<close> and \<open>ZeroDivisionError\<close> are the exceptions of Python's \<open>math\<close> module
  and of float division; \<open>GBS_CalculationError v diff precision\<close> is the exception class of
  the notebook, with the three numbers its message is formatted from.
\<close>

datatype error =
    ValueError
  | ZeroDivisionError
  | GBS_CalculationError real real real

text \<open>One constructor for each message the validation functions print.\<close>

datatype diagnostic =
    Invalid_option_type string
  | Invalid_X
  | Invalid_FS
  | Invalid_T real
  | Invalid_b real
  | Invalid_r real
  | Invalid_V real

text \<open>The tuple \<open>(value, delta, gamma, theta, vega, rho)\<close> returned by \<open>_gbs\<close>.\<close>

type_synonym pricing = "real \<times> real \<times> real \<times> real \<times> real \<times> real"

definition p_value :: "pricing \<Rightarrow> real" where
  "p_value p = (case p of (value', delta, gamma, theta, vega, rho) \<Rightarrow> value')"

definition p_gamma :: "pricing \<Rightarrow> real" where
  "p_gamma p = (case p of (value', delta, gamma, theta, vega, rho) \<Rightarrow> gamma)"

definition p_vega :: "pricing \<Rightarrow> real" where
  "p_vega p = (case p of (value', delta, gamma, theta, vega, rho) \<Rightarrow> vega)"

section \<open>The standard normal distribution (\<open>scipy.stats.norm\<close>)\<close>

text \<open>
  \<open>norm.pdf\<close> is the density \<open>exp (- z\<^sup>2 / 2) / sqrt (2 pi)\<close>.  \<open>norm.cdf\<close> is its
  distribution function, given here by the Maclaurin series of the density integrated term
  by term from \<open>0\<close>, which converges for every \<open>z\<close>:
  \<open>\<Phi> z = 1/2 + (\<Sum>n. (-1)^n z^(2n+1) / (n! 2^n (2n+1))) / sqrt (2 pi)\<close>.
\<close>

definition norm_pdf :: "real \<Rightarrow> real" where
  "norm_pdf z = exp (- (z * z) / 2) / sqrt (2 * pi)"

definition cdf_term :: "real \<Rightarrow> nat \<Rightarrow> real" where
  "cdf_term z n = (- 1) ^ n * z ^ (2 * n + 1) / (fact n * 2 ^ n * real (2 * n + 1))"

definition norm_cdf :: "real \<Rightarrow> real" where
  "norm_cdf z = 1 / 2 + (\<Sum>n. cdf_term z n) / sqrt (2 * pi)"

text \<open>The coefficient of \<open>z^k\<close> in the series, as a power series in \<open>z\<close>.\<close>

definition cdf_coeff :: "nat \<Rightarrow> real" where
  "cdf_coeff k = (if even k then 0
                  else (- 1) ^ ((k - 1) div 2)
                       / (fact ((k - 1) div 2) * 2 ^ ((k - 1) div 2) * real k))"


section \<open>Input validation\<close>

definition test_option_type :: "string \<Rightarrow> diagnostic list" where
  "test_option_type option_type =
     (if option_type \<noteq> ''c'' \<and> option_type \<noteq> ''p''
      then [Invalid_option_type option_type] else [])"

definition gbs_test_inputs ::
  "string \<Rightarrow> real \<Rightarrow> real \<Rightarrow> real \<Rightarrow> real \<Rightarrow> real \<Rightarrow> real \<Rightarrow> diagnostic list" where
  "gbs_test_inputs option_type fs x t r b v =
     test_option_type option_type
     @ (if x < MIN_X \<or> x > MAX_X then [Invalid_X] else [])
     @ (if fs < MIN_FS \<or> fs > MAX_FS then [Invalid_FS] else [])
     @ (if t < MIN_T \<or> t > MAX_T then [Invalid_T t] else [])
     @ (if b < MIN_b \<or> b > MAX_b then [Invalid_b b] else [])
     @ (if r < MIN_r \<or> r > MAX_r then [Invalid_r r] else [])
     @ (if v < MIN_V \<or> v > MAX_V then [Invalid_V v] else [])"

section \<open>The pricing function \<open>_gbs\<close>\<close>

text \<open>
  The result is the pair of what is printed and what is returned or raised.  The
  preliminary computation raises in source order: \<open>math.sqrt t\<close> for \<open>t < 0\<close>, the
  quotient \<open>fs / x\<close> for \<open>x = 0\<close>, \<open>math.log\<close> for \<open>fs / x \<le> 0\<close>, and the division by
  \<open>v * t__sqrt\<close> when that product is \<open>0\<close>.  Past these checks \<open>fs\<close>, \<open>v\<close> and
  \<open>t__sqrt\<close> are non-zero, so the divisions of \<open>gamma\<close> and \<open>theta\<close> cannot fail.
  The \<open>OverflowError\<close> of \<open>math.exp\<close>, for an exponent above about \<open>709.78\<close>, is an
  effect of the floating-point range and is not in the model; no input within the domain
  limits reaches it.
\<close>

definition gbs ::
  "string \<Rightarrow> real \<Rightarrow> real \<Rightarrow> real \<Rightarrow> real \<Rightarrow> real \<Rightarrow> real \<Rightarrow> diagnostic list \<times> (error + pricing)"
  where
  "gbs option_type fs x t r b v =
     (gbs_test_inputs option_type fs x t r b v,
      if t < 0 then Inl ValueError
      else let t_sqrt = sqrt t in
        if x = 0 then Inl ZeroDivisionError
        else if fs / x \<le> 0 then Inl ValueError
        else if v * t_sqrt = 0 then Inl ZeroDivisionError
        else
          let d1 = (ln (fs / x) + (b + (v * v) / 2) * t) / (v * t_sqrt);
              d2 = d1 - v * t_sqrt
          in if option_type = ''c'' then
               Inr (fs * exp ((b - r) * t) * norm_cdf d1 - x * exp (- r * t) * norm_cdf d2,
                    exp ((b - r) * t) * norm_cdf d1,
                    exp ((b - r) * t) * norm_pdf d1 / (fs * v * t_sqrt),
                    - (fs * v * exp ((b - r) * t) * norm_pdf d1) / (2 * t_sqrt)
                      - (b - r) * fs * exp ((b - r) * t) * norm_cdf d1
                      - r * x * exp (- r * t) * norm_cdf d2,
                    exp ((b - r) * t) * fs * t_sqrt * norm_pdf d1,
                    x * t * exp (- r * t) * norm_cdf d2)
             else
               Inr (x * exp (- r * t) * norm_cdf (- d2)
                      - (fs * exp ((b - r) * t) * norm_cdf (- d1)),
                    - exp ((b - r) * t) * norm_cdf (- d1),
                    exp ((b - r) * t) * norm_pdf d1 / (fs * v * t_sqrt),
                    - (fs * v * exp ((b - r) * t) * norm_pdf d1) / (2 * t_sqrt)
                      + (b - r) * fs * exp ((b - r) * t) * norm_cdf (- d1)
                      + r * x * exp (- r * t) * norm_cdf (- d2),
                    exp ((b - r) * t) * fs * t_sqrt * norm_pdf d1,
                    - x * t * exp (- r * t) * norm_cdf (- d2)))"

section \<open>The initial estimate \<open>_vol_implicite_approx\<close>\<close>

text \<open>
  The parameter \<open>b\<close> is overwritten in the source by \<open>cp - payoff / 2\<close>; the model
  names the new value \<open>b'\<close>.  The radicand \<open>b'\<^sup>2 + c\<close> is never negative; \<open>math.sqrt t\<close>
  raises for \<open>t < 0\<close> and the last division for \<open>t = 0\<close>.  The message the function may
  print about the option type is not part of its result here.
\<close>

definition vol_implicite_approx ::
  "string \<Rightarrow> real \<Rightarrow> real \<Rightarrow> real \<Rightarrow> real \<Rightarrow> real \<Rightarrow> real \<Rightarrow> error + real" where
  "vol_implicite_approx option_type fs x t r b cp =
     (let ebrt = exp ((b - r) * t);
          ert = exp (- r * t)
      in if fs * ebrt + x * ert = 0 then Inl ZeroDivisionError
         else
           let a = sqrt (2 * pi) / (fs * ebrt + x * ert);
               payoff = (if option_type = ''c'' then fs * ebrt - x * ert
                         else x * ert - fs * ebrt);
               b' = cp - payoff / 2;
               c = payoff\<^sup>2 / pi
           in if t < 0 then Inl ValueError
              else if sqrt t = 0 then Inl ZeroDivisionError
              else Inr ((a * (b' + sqrt (b'\<^sup>2 + c))) / sqrt t))"

section \<open>The implied-volatility solver\<close>

text \<open>
  Both search functions take the pricing function \<open>val_fn\<close> as an argument and call it
  with the option parameters and a volatility.  A pricing function of the model returns
  the tuple or the error it raises.  The solver's result is a pair: the list of the
  volatilities at which it called \<open>val_fn\<close>, in call order, and the volatility it returns
  or the error it raises.

  The numbers a pricing function returns are numpy floats, as those of \<open>_gbs\<close> are
  (they come from \<open>scipy\<close>): a quotient of the solver with divisor \<open>0\<close> raises nothing
  and is \<open>+inf\<close>, \<open>-inf\<close> or NaN by the sign of the dividend.  The model follows these
  three cases where they arise, with what Python's comparisons, \<open>max\<close> and \<open>min\<close> then
  give.  A pricing function called at NaN returns NaNs, as \<open>_gbs\<close> does.
\<close>

text \<open>A volatility at which \<open>val_fn\<close> is called: a real number or NaN.\<close>

datatype point = At real | At_NaN

type_synonym val_fn =
  "string \<Rightarrow> real \<Rightarrow> real \<Rightarrow> real \<Rightarrow> real \<Rightarrow> real \<Rightarrow> real \<Rightarrow> error + pricing"

definition in_band :: "real \<Rightarrow> bool" where
  "in_band v \<longleftrightarrow> MIN_V \<le> v \<and> v \<le> MAX_V"

subsection \<open>Bisection: \<open>_rech_dichotomique_vol_implicite\<close>\<close>

text \<open>
  The \<open>while\<close> loop, with \<open>f = val_fn option_type fs x t r b\<close>.  When the guard fails the
  loop returns its variables \<open>(v_mid, cp_mid, diff)\<close>.  When \<open>cp_high = cp_low\<close> the
  interpolated \<open>v_mid\<close> is \<open>+inf\<close> for a positive dividend, which the two clamping lines
  turn into \<open>MAX_V\<close>, and \<open>-inf\<close> or NaN otherwise, which they turn into \<open>MIN_V\<close>
  (\<open>max(MIN_V, nan)\<close> is \<open>MIN_V\<close>).
\<close>

function rech_loop ::
  "(real \<Rightarrow> error + pricing) \<Rightarrow> real \<Rightarrow> real \<Rightarrow> int
     \<Rightarrow> real \<Rightarrow> real \<Rightarrow> real \<Rightarrow> real \<Rightarrow> real \<Rightarrow> int
     \<Rightarrow> real list \<times> (error + real \<times> real \<times> real)" where
  "rech_loop f cp precision max_steps v_low v_high v_mid cp_mid diff current_step =
     (if diff > precision \<and> current_step < max_steps then
        let v_low' = (if cp_mid < cp then v_mid else v_low);
            v_high' = (if cp_mid < cp then v_high else v_mid)
        in case f v_low' of
             Inl e \<Rightarrow> ([v_low'], Inl e)
           | Inr p_low \<Rightarrow>
              (case f v_high' of
                 Inl e \<Rightarrow> ([v_low', v_high'], Inl e)
               | Inr p_high \<Rightarrow>
                  let cp_low = p_value p_low;
                      cp_high = p_value p_high;
                      v_mid' =
                        (if cp_high - cp_low = 0
                         then (if (cp - cp_low) * (v_high' - v_low') > 0 then MAX_V else MIN_V)
                         else min MAX_V (max MIN_V
                                (v_low' + (cp - cp_low) * (v_high' - v_low')
                                          / (cp_high - cp_low))))
                  in (case f v_mid' of
                        Inl e \<Rightarrow> ([v_low', v_high', v_mid'], Inl e)
                      | Inr p_mid \<Rightarrow>
                         (case rech_loop f cp precision max_steps v_low' v_high' v_mid'
                                 (p_value p_mid) (abs (cp - p_value p_mid))
                                 (current_step + 1) of
                            (es, out) \<Rightarrow> (v_low' # v_high' # v_mid' # es, out))))
      else ([], Inr (v_mid, cp_mid, diff)))"
  by pat_completeness auto
termination
  by (relation "measure (\<lambda>(f, cp, precision, max_steps, v_low, v_high, v_mid, cp_mid, diff,
                            current_step). nat (max_steps - current_step))") auto

declare rech_loop.simps [simp del]

definition rech_dichotomique_vol_implicite ::
  "val_fn \<Rightarrow> string \<Rightarrow> real \<Rightarrow> real \<Rightarrow> real \<Rightarrow> real \<Rightarrow> real \<Rightarrow> real \<Rightarrow> real \<Rightarrow> int
     \<Rightarrow> real list \<times> (error + real)" where
  "rech_dichotomique_vol_implicite val_fn option_type fs x t r b cp precision max_steps =
     (case vol_implicite_approx option_type fs x t r b cp of
        Inl e \<Rightarrow> ([], Inl e)
      | Inr v_approx \<Rightarrow>
         (case (if v_approx \<le> MIN_V \<or> v_approx \<ge> MAX_V
                then (MIN_V, MAX_V, (MIN_V + MAX_V) / 2)
                else (max MIN_V (v_approx * (5 / 10)), min MAX_V (v_approx * (15 / 10)),
                      v_approx)) of
            (v_low, v_high, v_mid) \<Rightarrow>
              (case val_fn option_type fs x t r b v_mid of
                 Inl e \<Rightarrow> ([v_mid], Inl e)
               | Inr p \<Rightarrow>
                  (case rech_loop (val_fn option_type fs x t r b) cp precision max_steps
                          v_low v_high v_mid (p_value p) (abs (cp - p_value p)) 0 of
                     (es, Inl e) \<Rightarrow> (v_mid # es, Inl e)
                   | (es, Inr (v_mid', cp_mid, diff)) \<Rightarrow>
                       if \<bar>cp - cp_mid\<bar> < precision then (v_mid # es, Inr v_mid')
                       else (v_mid # es,
                             Inl (GBS_CalculationError v_mid' diff precision))))))"

subsection \<open>Newton-Raphson: \<open>_newton_vol_implicite\<close>\<close>

text \<open>The guard of the \<open>while\<close> loop.\<close>

definition newton_guard :: "real \<Rightarrow> real \<Rightarrow> int \<Rightarrow> real \<Rightarrow> real \<Rightarrow> int \<Rightarrow> bool" where
  "newton_guard cp precision max_steps value min_diff countr \<longleftrightarrow>
     precision \<le> \<bar>cp - value\<bar> \<and> \<bar>cp - value\<bar> \<le> min_diff \<and> countr < max_steps"

text \<open>
  How the loop ends other than with real numbers in \<open>(v, value)\<close>: \<open>val_fn\<close> raised,
  or the update divided by a vega of \<open>0\<close>.
\<close>

datatype newton_stop = Raised error | Non_finite

text \<open>
  The loop, with \<open>f = val_fn option_type fs x t r b\<close>.  It ends by the guard or by the
  \<open>break\<close>, and returns the variables \<open>(v, value)\<close> the code after the loop reads.

  With a vega of \<open>0\<close> and \<open>value \<noteq> cp\<close> the updated \<open>v\<close> is \<open>+inf\<close> or \<open>-inf\<close> and
  the band test breaks the loop.  With a vega of \<open>0\<close> and \<open>value = cp\<close> the updated \<open>v\<close>
  is NaN: both comparisons of the band test are false, \<open>val_fn\<close> is called at NaN,
  \<open>value\<close> and \<open>min_diff\<close> become NaN and the guard, false on NaN, ends the loop.  In
  both cases the convergence test after the loop fails.
\<close>

function newton_loop ::
  "(real \<Rightarrow> error + pricing) \<Rightarrow> real \<Rightarrow> real \<Rightarrow> int
     \<Rightarrow> real \<Rightarrow> real \<Rightarrow> real \<Rightarrow> real \<Rightarrow> int
     \<Rightarrow> point list \<times> (newton_stop + real \<times> real)" where
  "newton_loop f cp precision max_steps v value vega min_diff countr =
     (if newton_guard cp precision max_steps value min_diff countr then
        if vega = 0 then
          (if value - cp = 0 then ([At_NaN], Inl Non_finite) else ([], Inl Non_finite))
        else
          let v' = v - (value - cp) / vega
          in if v' > MAX_V \<or> v' < MIN_V then ([], Inr (v', value))
             else
               case f v' of
                 Inl e \<Rightarrow> ([At v'], Inl (Raised e))
               | Inr p \<Rightarrow>
                  (case newton_loop f cp precision max_steps v' (p_value p) (p_vega p)
                          (min (abs (cp - p_value p)) min_diff) (countr + 1) of
                     (es, out) \<Rightarrow> (At v' # es, out))
      else ([], Inr (v, value)))"
  by pat_completeness auto
termination
  by (relation "measure (\<lambda>(f, cp, precision, max_steps, v, value, vega, min_diff, countr).
                            nat (max_steps - countr))") (auto simp: newton_guard_def)

declare newton_loop.simps [simp del]

text \<open>The code after the loop: the convergence test, and the bisection when it fails.\<close>

definition newton_finish ::
  "val_fn \<Rightarrow> string \<Rightarrow> real \<Rightarrow> real \<Rightarrow> real \<Rightarrow> real \<Rightarrow> real \<Rightarrow> real \<Rightarrow> real \<Rightarrow> int
     \<Rightarrow> real \<Rightarrow> real \<Rightarrow> real list \<times> (error + real)" where
  "newton_finish val_fn option_type fs x t r b cp precision max_steps v value =
     (if \<bar>cp - value\<bar> < precision then ([], Inr v)
      else rech_dichotomique_vol_implicite val_fn option_type fs x t r b cp precision
             max_steps)"

definition newton_vol_implicite ::
  "val_fn \<Rightarrow> string \<Rightarrow> real \<Rightarrow> real \<Rightarrow> real \<Rightarrow> real \<Rightarrow> real \<Rightarrow> real \<Rightarrow> real \<Rightarrow> int
     \<Rightarrow> point list \<times> (error + real)" where
  "newton_vol_implicite val_fn option_type x fs t b r cp precision max_steps =
     (case vol_implicite_approx option_type fs x t r b cp of
        Inl e \<Rightarrow> ([], Inl e)
      | Inr v_approx \<Rightarrow>
         let v = min MAX_V (max MIN_V v_approx)
         in (case val_fn option_type fs x t r b v of
               Inl e \<Rightarrow> ([At v], Inl e)
             | Inr p \<Rightarrow>
                (case newton_loop (val_fn option_type fs x t r b) cp precision max_steps
                        v (p_value p) (p_vega p) (abs (cp - p_value p)) 0 of
                   (es, Inl (Raised e)) \<Rightarrow> (At v # es, Inl e)
                 | (es, Inl Non_finite) \<Rightarrow>
                     (case rech_dichotomique_vol_implicite val_fn option_type fs x t r b cp
                             precision max_steps of
                        (es', out) \<Rightarrow> (At v # es @ map At es', out))
                 | (es, Inr (v', value)) \<Rightarrow>
                     (case newton_finish val_fn option_type fs x t r b cp precision max_steps
                             v' value of
                        (es', out) \<Rightarrow> (At v # es @ map At es', out)))))"

text \<open>\<open>_gbs_vol_implicite\<close>: the solver on \<open>_gbs\<close>, whose printed output is dropped.\<close>

definition gbs_val_fn :: val_fn where
  "gbs_val_fn option_type fs x t r b v = snd (gbs option_type fs x t r b v)"

definition gbs_vol_implicite ::
  "string \<Rightarrow> real \<Rightarrow> real \<Rightarrow> real \<Rightarrow> real \<Rightarrow> real \<Rightarrow> real \<Rightarrow> real \<Rightarrow> int
     \<Rightarrow> point list \<times> (error + real)" where
  "gbs_vol_implicite option_type fs x t r b cp precision max_steps =
     newton_vol_implicite gbs_val_fn option_type x fs t b r cp precision max_steps"

section \<open>Notions used by the statements\<close>

text \<open>
  \<open>d1\<close> and \<open>d2\<close> as the specification writes them, with \<open>volatility\<^sup>2\<close> and
  \<open>sqrt t\<close>.
\<close>

definition spec_d1 :: "real \<Rightarrow> real \<Rightarrow> real \<Rightarrow> real \<Rightarrow> real \<Rightarrow> real" where
  "spec_d1 spot strike t carry volatility =
     (ln (spot / strike) + (carry + volatility\<^sup>2 / 2) * t) / (volatility * sqrt t)"

definition spec_d2 :: "real \<Rightarrow> real \<Rightarrow> real \<Rightarrow> real \<Rightarrow> real \<Rightarrow> real" where
  "spec_d2 spot strike t carry volatility =
     spec_d1 spot strike t carry volatility - volatility * sqrt t"

text \<open>The price \<open>val_fn(...)[0]\<close> of a call that returns (and \<open>0\<close> for one that raises).\<close>

definition price_of :: "error + pricing \<Rightarrow> real" where
  "price_of res = (case res of Inl e \<Rightarrow> 0 | Inr p \<Rightarrow> p_value p)"

text \<open>
  What holds of a result of the bisection loop, of the Newton-Raphson loop and of a solver
  when \<open>precision\<close> is positive: every evaluation point is a number of the band; the
  variables a loop hands on are consistent (the price is the price at the volatility); a
  returned volatility lies in the band and reprices within \<open>precision\<close>.  After a
  \<open>break\<close> the Newton-Raphson loop hands on a volatility outside the band with the price
  of the previous one, which the guard has found at least \<open>precision\<close> away from the
  target.
\<close>

definition in_band_pt :: "point \<Rightarrow> bool" where
  "in_band_pt pt \<longleftrightarrow> (case pt of At v \<Rightarrow> in_band v | At_NaN \<Rightarrow> False)"






text \<open>
  The price errors of a run of the Newton-Raphson loop.  \<open>err_at f cp pt\<close> is the error
  \<open>|cp - value|\<close> of the price at an evaluation point.  \<open>improving precision m errs\<close>
  says of the errors \<open>errs\<close> of the successive evaluations of a run that starts with
  \<open>min_diff = m\<close>: every error but the last is at least \<open>precision\<close> and at most the
  smallest error before it, \<open>m\<close> included.
\<close>

definition err_at :: "(real \<Rightarrow> error + pricing) \<Rightarrow> real \<Rightarrow> point \<Rightarrow> real" where
  "err_at f cp pt = (case pt of At v \<Rightarrow> abs (cp - price_of (f v)) | At_NaN \<Rightarrow> 0)"

fun improving :: "real \<Rightarrow> real \<Rightarrow> real list \<Rightarrow> bool" where
  "improving precision m [] = True"
| "improving precision m [e] = True"
| "improving precision m (e # e' # es) =
     (precision \<le> e \<and> e \<le> m \<and> improving precision (min e m) (e' # es))"

text \<open>
  Pricing functions for running the solver on numbers: an affine price with its true
  slope; the same price with a vega four times too small; an affine price whose vega makes
  the first Newton-Raphson step overshoot the root; a price \<open>v\<close> whose vega makes the first
  step improve and the second one overshoot; and a price and a vega that are \<open>0\<close>
  everywhere, as those of \<open>_gbs\<close> are in floating point far out of the money.
\<close>

definition linear_fn :: val_fn where
  "linear_fn option_type fs x t r b v = Inr (v - 1 / 2, 0, 0, 0, 1, 0)"

definition flat_vega_fn :: val_fn where
  "flat_vega_fn option_type fs x t r b v = Inr (v - 1 / 2, 0, 0, 0, 1 / 4, 0)"

definition overshoot_fn :: val_fn where
  "overshoot_fn option_type fs x t r b v = Inr (v + 1 / 10, 0, 0, 0, 2 / 10, 0)"

definition zigzag_fn :: val_fn where
  "zigzag_fn option_type fs x t r b v = Inr (v, 0, 0, 0, if v = 1 then 2 else 2 / 5, 0)"

definition underflow_fn :: val_fn where
  "underflow_fn option_type fs x t r b v = Inr (0, 0, 0, 0, 0, 0)"



text \<open>The six formulas of the put branch of \<open>_gbs\<close>, with \<open>d1\<close> and \<open>d2\<close> as above.\<close>

definition put_formulas :: "real \<Rightarrow> real \<Rightarrow> real \<Rightarrow> real \<Rightarrow> real \<Rightarrow> real \<Rightarrow> pricing" where
  "put_formulas fs x t r b v =
     (x * exp (- r * t) * norm_cdf (- spec_d2 fs x t b v)
        - fs * exp ((b - r) * t) * norm_cdf (- spec_d1 fs x t b v),
      - exp ((b - r) * t) * norm_cdf (- spec_d1 fs x t b v),
      exp ((b - r) * t) * norm_pdf (spec_d1 fs x t b v) / (fs * v * sqrt t),
      - (fs * v * exp ((b - r) * t) * norm_pdf (spec_d1 fs x t b v)) / (2 * sqrt t)
        + (b - r) * fs * exp ((b - r) * t) * norm_cdf (- spec_d1 fs x t b v)
        + r * x * exp (- r * t) * norm_cdf (- spec_d2 fs x t b v),
      exp ((b - r) * t) * fs * sqrt t * norm_pdf (spec_d1 fs x t b v),
      - x * t * exp (- r * t) * norm_cdf (- spec_d2 fs x t b v))"

text \<open>
  The initial estimate of \<open>_vol_implicite_approx\<close> with the payoff of its \<open>else\<close>
  branch, \<open>x * ert - fs * ebrt\<close>.
\<close>

definition put_estimate :: "real \<Rightarrow> real \<Rightarrow> real \<Rightarrow> real \<Rightarrow> real \<Rightarrow> real \<Rightarrow> real" where
  "put_estimate fs x t r b cp =
     (let ebrt = exp ((b - r) * t);
          ert = exp (- r * t);
          a = sqrt (2 * pi) / (fs * ebrt + x * ert);
          payoff = x * ert - fs * ebrt;
          b' = cp - payoff / 2;
          c = payoff\<^sup>2 / pi
      in (a * (b' + sqrt (b'\<^sup>2 + c))) / sqrt t)"

lemmas limites_defs =
  MAX32_def MIN_T_def MIN_X_def MIN_FS_def MIN_V_def MAX_T_def MAX_X_def MAX_FS_def
  MIN_b_def MIN_r_def MAX_b_def MAX_r_def MAX_V_def

section \<open>The distribution function\<close>

lemma cdf_term_bound: "\<bar>cdf_term z n\<bar> \<le> \<bar>z\<bar> * ((z\<^sup>2 / 2) ^ n / fact n)"
proof -
  have pw: "\<bar>z ^ (2 * n + 1)\<bar> = \<bar>z\<bar> * (z\<^sup>2) ^ n"
    by (simp add: power_mult abs_mult power_abs power_even_abs)
  have "\<bar>cdf_term z n\<bar> = \<bar>z\<bar> * (z\<^sup>2) ^ n / (fact n * 2 ^ n * real (2 * n + 1))"
    unfolding cdf_term_def abs_divide abs_mult pw by (simp add: power_abs)
  also have "\<dots> = \<bar>z\<bar> * ((z\<^sup>2 / 2) ^ n / fact n) / real (2 * n + 1)"
    by (simp add: power_divide)
  also have "\<dots> \<le> \<bar>z\<bar> * ((z\<^sup>2 / 2) ^ n / fact n) / 1"
    by (rule divide_left_mono) (auto intro!: mult_nonneg_nonneg divide_nonneg_nonneg)
  finally show ?thesis by simp
qed

lemma summable_cdf_term: "summable (cdf_term z)"
proof (rule summable_comparison_test')
  show "summable (\<lambda>n. \<bar>z\<bar> * ((z\<^sup>2 / 2) ^ n / fact n))"
    using summable_exp[of "z\<^sup>2 / 2"] by (intro summable_mult) (simp add: field_simps)
  show "\<And>n. n \<ge> 0 \<Longrightarrow> norm (cdf_term z n) \<le> \<bar>z\<bar> * ((z\<^sup>2 / 2) ^ n / fact n)"
    using cdf_term_bound by simp
qed

lemma cdf_term_minus: "cdf_term (- z) n = - cdf_term z n"
  by (simp add: cdf_term_def)

lemma norm_cdf_minus: "norm_cdf (- z) = 1 - norm_cdf z"
proof -
  have "(\<Sum>n. cdf_term (- z) n) = - (\<Sum>n. cdf_term z n)"
    using suminf_minus[OF summable_cdf_term, of z] by (simp add: cdf_term_minus)
  then show ?thesis by (simp add: norm_cdf_def)
qed

lemma norm_cdf_0: "norm_cdf 0 = 1 / 2"
  by (simp add: norm_cdf_def cdf_term_def)

text \<open>
  The series defines the distribution function of the density: its value at \<open>0\<close> is
  \<open>1/2\<close> and its derivative is \<open>norm_pdf\<close> everywhere.
\<close>

lemma cdf_power_series: "(\<lambda>k. cdf_coeff k * z ^ k) sums suminf (cdf_term z)"
proof -
  have "(\<lambda>k. if even k then 0 else cdf_term z ((k - 1) div 2)) sums suminf (cdf_term z)"
    by (rule sums_if'[OF summable_sums[OF summable_cdf_term]])
  moreover have "(if even k then 0 else cdf_term z ((k - 1) div 2)) = cdf_coeff k * z ^ k" for k
  proof (cases "even k")
    case True
    then show ?thesis by (simp add: cdf_coeff_def)
  next
    case False
    then obtain n where k: "k = 2 * n + 1" by (auto elim: oddE)
    show ?thesis by (simp add: k cdf_coeff_def cdf_term_def)
  qed
  ultimately show ?thesis by simp
qed

lemma diffs_cdf_coeff:
  "diffs cdf_coeff n * z ^ n
     = (if even n then (- (z\<^sup>2) / 2) ^ (n div 2) /\<^sub>R fact (n div 2) else 0)"
proof (cases "even n")
  case True
  then obtain m where n: "n = 2 * m" by (auto elim: evenE)
  have c: "cdf_coeff (Suc (2 * m)) = (- 1) ^ m / (fact m * 2 ^ m * real (Suc (2 * m)))"
    by (simp add: cdf_coeff_def)
  have "diffs cdf_coeff (2 * m) = real (Suc (2 * m)) * ((- 1) ^ m / (fact m * 2 ^ m))
                                    / real (Suc (2 * m))"
    unfolding diffs_def c by simp
  also have "\<dots> = (- 1) ^ m / (fact m * 2 ^ m)"
    by (rule nonzero_mult_div_cancel_left) simp
  finally have d: "diffs cdf_coeff (2 * m) = (- 1) ^ m / (fact m * 2 ^ m)" .
  have "(- (z\<^sup>2 / 2)) ^ m = (- 1) ^ m * (z\<^sup>2 / 2) ^ m"
    by (rule power_minus)
  then have pw: "(- (z\<^sup>2) / 2) ^ m = (- 1) ^ m * z ^ (2 * m) / 2 ^ m"
    by (simp add: power_divide power_mult)
  have "diffs cdf_coeff (2 * m) * z ^ (2 * m) = ((- 1) ^ m * z ^ (2 * m) / 2 ^ m) / fact m"
    unfolding d by simp
  also have "\<dots> = (- (z\<^sup>2) / 2) ^ m /\<^sub>R fact m"
    unfolding pw by (simp add: divide_inverse)
  finally show ?thesis by (simp add: n)
next
  case False
  then show ?thesis by (simp add: diffs_def cdf_coeff_def)
qed

lemma cdf_series_derivative:
  "((\<lambda>z. suminf (cdf_term z)) has_field_derivative exp (- (z\<^sup>2) / 2)) (at z)"
proof -
  have sm: "summable (\<lambda>k. cdf_coeff k * y ^ k)" for y
    using cdf_power_series[of y] by (rule sums_summable)
  have d: "((\<lambda>z. \<Sum>k. cdf_coeff k * z ^ k) has_field_derivative
              (\<Sum>n. diffs cdf_coeff n * z ^ n)) (at z)"
    by (rule termdiffs_strong_converges_everywhere[OF sm])
  have e: "(\<lambda>n. if even n then (- (z\<^sup>2) / 2) ^ (n div 2) /\<^sub>R fact (n div 2)
                 else (\<lambda>n. 0) ((n - 1) div 2)) sums (0 + exp (- (z\<^sup>2) / 2))"
    by (rule sums_if[OF sums_zero exp_converges])
  have "(\<lambda>n. diffs cdf_coeff n * z ^ n) sums exp (- (z\<^sup>2) / 2)"
    using e by (simp add: diffs_cdf_coeff)
  then have "(\<Sum>n. diffs cdf_coeff n * z ^ n) = exp (- (z\<^sup>2) / 2)"
    by (rule sums_unique[symmetric])
  moreover have "(\<lambda>z. \<Sum>k. cdf_coeff k * z ^ k) = (\<lambda>z. suminf (cdf_term z))"
    using cdf_power_series by (intro ext sums_unique[symmetric])
  ultimately show ?thesis using d by simp
qed

lemma norm_cdf_derivative: "(norm_cdf has_field_derivative norm_pdf z) (at z)"
proof -
  have "((\<lambda>z. 1 / 2 + suminf (cdf_term z) / sqrt (2 * pi)) has_field_derivative
           0 + exp (- (z\<^sup>2) / 2) / sqrt (2 * pi)) (at z)"
    by (intro derivative_intros DERIV_cdivide cdf_series_derivative)
  then show ?thesis
    by (simp add: norm_cdf_def[abs_def] norm_pdf_def power2_eq_square)
qed






section \<open>The pricing function\<close>

lemma gbs_returns_iff:
  "(\<exists>p. snd (gbs option_type fs x t r b v) = Inr p)
     \<longleftrightarrow> 0 < t \<and> v \<noteq> 0 \<and> x \<noteq> 0 \<and> 0 < fs / x"
  by (auto simp: gbs_def Let_def)

lemma norm_pdf_pos: "0 < norm_pdf z"
  by (simp add: norm_pdf_def)

lemma gbs_vega_nonzero:
  assumes "snd (gbs option_type fs x t r b v) = Inr p"
  shows "p_vega p \<noteq> 0"
proof -
  have "fs \<noteq> 0" and "sqrt t \<noteq> 0"
    using assms by (auto simp: gbs_def Let_def split: if_splits)
  moreover have "norm_pdf z \<noteq> 0" for z using norm_pdf_pos[of z] by simp
  ultimately show ?thesis
    using assms by (auto simp: gbs_def Let_def p_vega_def split: if_splits)
qed

text \<open>
  C5: for a call with \<open>spot > 0\<close>, \<open>strike > 0\<close>, \<open>t > 0\<close> and \<open>volatility > 0\<close> (every
  in-range input is such), \<open>_gbs\<close> returns a tuple whose value is
  \<open>spot e^((carry - r) t) \<Phi>(d1) - strike e^(- r t) \<Phi>(d2)\<close> and whose vega is
  \<open>e^((carry - r) t) spot sqrt(t) \<phi>(d1)\<close>, with \<open>d1\<close> and \<open>d2\<close> as the specification
  writes them.
\<close>

theorem gbs_call_formulas:
  assumes "0 < spot" and "0 < strike" and "0 < t" and "0 < volatility"
  shows "\<exists>delta gamma theta rho.
           snd (gbs ''c'' spot strike t r carry volatility) =
             Inr (spot * exp ((carry - r) * t) * norm_cdf (spec_d1 spot strike t carry volatility)
                    - strike * exp (- r * t) * norm_cdf (spec_d2 spot strike t carry volatility),
                  delta, gamma, theta,
                  exp ((carry - r) * t) * spot * sqrt t
                    * norm_pdf (spec_d1 spot strike t carry volatility),
                  rho)"
proof -
  have "\<not> spot / strike \<le> 0" using assms(1,2) by (simp add: not_le)
  then show ?thesis
    using assms by (simp add: gbs_def Let_def spec_d1_def spec_d2_def power2_eq_square)
qed

theorem gbs_call_formulas_witness:
  "\<exists>delta gamma theta rho.
     snd (gbs ''c'' 1 1 1 0 0 1) =
       Inr (norm_cdf (1 / 2) - norm_cdf (- (1 / 2)), delta, gamma, theta, norm_pdf (1 / 2), rho)"
  using gbs_call_formulas[of 1 1 1 1 0 0] by (simp add: spec_d1_def spec_d2_def)

text \<open>
  C7: put-call parity.  For every parameter tuple on which \<open>_gbs\<close> returns for the call
  (every valid tuple is one), it returns for the put, and the call value minus the put
  value is \<open>fs e^((b - r) t) - x e^(- r t)\<close>.
\<close>

theorem put_call_parity:
  assumes "snd (gbs ''c'' fs x t r b v) = Inr pc"
  shows "\<exists>pp. snd (gbs ''p'' fs x t r b v) = Inr pp
           \<and> p_value pc - p_value pp = fs * exp ((b - r) * t) - x * exp (- r * t)"
proof -
  have c: "\<not> t < 0" "x \<noteq> 0" "\<not> fs / x \<le> 0" "v * sqrt t \<noteq> 0"
    using assms by (auto simp: gbs_def Let_def split: if_splits)
  define d1 where "d1 = (ln (fs / x) + (b + (v * v) / 2) * t) / (v * sqrt t)"
  define d2 where "d2 = d1 - v * sqrt t"
  have pcv: "p_value pc = fs * exp ((b - r) * t) * norm_cdf d1 - x * exp (- r * t) * norm_cdf d2"
    using assms c by (auto simp: gbs_def Let_def p_value_def d1_def d2_def)
  obtain pp where pp: "snd (gbs ''p'' fs x t r b v) = Inr pp"
    and ppv: "p_value pp = x * exp (- r * t) * norm_cdf (- d2)
                             - fs * exp ((b - r) * t) * norm_cdf (- d1)"
    using c by (simp add: gbs_def Let_def p_value_def d1_def d2_def)
  have "p_value pc - p_value pp = fs * exp ((b - r) * t) - x * exp (- r * t)"
    unfolding pcv ppv norm_cdf_minus by (simp add: algebra_simps)
  with pp show ?thesis by blast
qed

theorem put_call_parity_witness:
  "\<exists>pc pp. snd (gbs ''c'' 2 1 1 0 0 1) = Inr pc \<and> snd (gbs ''p'' 2 1 1 0 0 1) = Inr pp
      \<and> p_value pc - p_value pp = 1"
proof -
  obtain pc where c: "snd (gbs ''c'' 2 1 1 0 0 1) = Inr pc" by (simp add: gbs_def Let_def)
  from put_call_parity[OF c] c show ?thesis by auto
qed

text \<open>
  C10: for every parameter tuple on which \<open>_gbs\<close> returns for the call, it returns for
  the put, and gamma and vega are the same numbers in both tuples:
  \<open>gamma = e^((b - r) t) \<phi>(d1) / (fs v sqrt t)\<close> and \<open>vega = e^((b - r) t) fs sqrt(t) \<phi>(d1)\<close>.
\<close>

theorem gbs_gamma_vega_call_put:
  assumes "snd (gbs ''c'' fs x t r b v) = Inr pc"
  shows "\<exists>pp. snd (gbs ''p'' fs x t r b v) = Inr pp
           \<and> p_gamma pc = exp ((b - r) * t) * norm_pdf (spec_d1 fs x t b v) / (fs * v * sqrt t)
           \<and> p_gamma pp = p_gamma pc
           \<and> p_vega pc = exp ((b - r) * t) * fs * sqrt t * norm_pdf (spec_d1 fs x t b v)
           \<and> p_vega pp = p_vega pc"
  using assms
  by (auto simp: gbs_def Let_def spec_d1_def p_gamma_def p_vega_def power2_eq_square
           split: if_splits)

theorem gbs_gamma_vega_call_put_witness:
  "\<exists>pc pp. snd (gbs ''c'' 1 1 1 0 0 1) = Inr pc \<and> snd (gbs ''p'' 1 1 1 0 0 1) = Inr pp
      \<and> p_gamma pp = p_gamma pc \<and> p_vega pp = p_vega pc \<and> p_vega pc = norm_pdf (1 / 2)"
proof -
  obtain pc where c: "snd (gbs ''c'' 1 1 1 0 0 1) = Inr pc" by (simp add: gbs_def Let_def)
  from gbs_gamma_vega_call_put[OF c] c show ?thesis by (auto simp: spec_d1_def)
qed




section \<open>The bisection loop\<close>


lemma rech_loop_stop:
  "\<not> (diff > precision \<and> current_step < max_steps) \<Longrightarrow>
   rech_loop f cp precision max_steps v_low v_high v_mid cp_mid diff current_step
     = ([], Inr (v_mid, cp_mid, diff))"
  by (subst rech_loop.simps) (simp only: if_False)






section \<open>The Newton-Raphson loop\<close>

lemma newton_loop_stop:
  "\<not> newton_guard cp precision max_steps val min_diff countr \<Longrightarrow>
   newton_loop f cp precision max_steps v val vega min_diff countr = ([], Inr (v, val))"
  by (subst newton_loop.simps) (simp only: if_False)

lemma newton_loop_nan:
  "newton_guard cp precision max_steps val min_diff countr \<Longrightarrow> vega = 0 \<Longrightarrow> val - cp = 0 \<Longrightarrow>
   newton_loop f cp precision max_steps v val vega min_diff countr
     = ([At_NaN], Inl Non_finite)"
  by (subst newton_loop.simps) simp

lemma newton_loop_infinite:
  "newton_guard cp precision max_steps val min_diff countr \<Longrightarrow> vega = 0 \<Longrightarrow> val - cp \<noteq> 0 \<Longrightarrow>
   newton_loop f cp precision max_steps v val vega min_diff countr = ([], Inl Non_finite)"
  by (subst newton_loop.simps) simp

lemma newton_loop_break:
  "newton_guard cp precision max_steps val min_diff countr \<Longrightarrow> vega \<noteq> 0 \<Longrightarrow>
   v - (val - cp) / vega > MAX_V \<or> v - (val - cp) / vega < MIN_V \<Longrightarrow>
   newton_loop f cp precision max_steps v val vega min_diff countr
     = ([], Inr (v - (val - cp) / vega, val))"
  by (subst newton_loop.simps) (simp only: if_True if_False Let_def)

lemma newton_loop_raise:
  "newton_guard cp precision max_steps val min_diff countr \<Longrightarrow> vega \<noteq> 0 \<Longrightarrow>
   \<not> (v - (val - cp) / vega > MAX_V \<or> v - (val - cp) / vega < MIN_V) \<Longrightarrow>
   f (v - (val - cp) / vega) = Inl e \<Longrightarrow>
   newton_loop f cp precision max_steps v val vega min_diff countr
     = ([At (v - (val - cp) / vega)], Inl (Raised e))"
  by (subst newton_loop.simps) (simp only: if_True if_False Let_def sum.case)

lemma newton_loop_step:
  "newton_guard cp precision max_steps val min_diff countr \<Longrightarrow> vega \<noteq> 0 \<Longrightarrow>
   \<not> (v - (val - cp) / vega > MAX_V \<or> v - (val - cp) / vega < MIN_V) \<Longrightarrow>
   f (v - (val - cp) / vega) = Inr p \<Longrightarrow>
   newton_loop f cp precision max_steps v val vega min_diff countr
     = (case newton_loop f cp precision max_steps (v - (val - cp) / vega) (p_value p)
               (p_vega p) (min (abs (cp - p_value p)) min_diff) (countr + 1) of
          (es, out) \<Rightarrow> (At (v - (val - cp) / vega) # es, out))"
  by (subst newton_loop.simps) (simp only: if_True if_False Let_def sum.case)



lemma improving_cons:
  "improving precision (min e m) errs \<Longrightarrow> (errs \<noteq> [] \<longrightarrow> precision \<le> e \<and> e \<le> m) \<Longrightarrow>
   improving precision m (e # errs)"
  by (cases errs) simp_all

lemma newton_loop_trace:
  "newton_loop f cp precision max_steps v val vega m countr = (es, out) \<Longrightarrow>
   improving precision m (map (err_at f cp) es)
   \<and> (es \<noteq> [] \<longrightarrow> newton_guard cp precision max_steps val m countr)
   \<and> int (length es) \<le> max 0 (max_steps - countr)"
proof (induction f cp precision max_steps v val vega m countr arbitrary: es out
       rule: newton_loop.induct)
  case (1 f cp precision max_steps v val vega m countr)
  define v' where "v' = v - (val - cp) / vega"
  show ?case
  proof (cases "newton_guard cp precision max_steps val m countr")
    case False
    then show ?thesis using "1.prems" by (simp add: newton_loop_stop)
  next
    case guard: True
    then have lt: "countr < max_steps" by (simp add: newton_guard_def)
    show ?thesis
    proof (cases "vega = 0")
      case True
      then show ?thesis
        using guard lt "1.prems"
        by (cases "val - cp = 0") (auto simp: newton_loop_nan newton_loop_infinite)
    next
      case nz: False
      show ?thesis
      proof (cases "v' > MAX_V \<or> v' < MIN_V")
        case True
        then show ?thesis
          using newton_loop_break[OF guard nz, of v f] "1.prems" by (auto simp: v'_def)
      next
        case inb: False
        show ?thesis
        proof (cases "f v'")
          case (Inl e)
          then show ?thesis
            using newton_loop_raise[OF guard nz, of v f e] inb guard lt "1.prems"
            by (auto simp: v'_def)
        next
          case (Inr p)
          obtain es' out' where rec:
            "newton_loop f cp precision max_steps v' (p_value p) (p_vega p)
               (min (abs (cp - p_value p)) m) (countr + 1) = (es', out')"
            by (cases "newton_loop f cp precision max_steps v' (p_value p) (p_vega p)
                         (min (abs (cp - p_value p)) m) (countr + 1)")
          have es: "es = At v' # es'"
            using newton_loop_step[OF guard nz, of v f p] inb Inr rec "1.prems"
            by (simp add: v'_def)
          note ih = "1.IH"[OF guard nz v'_def inb Inr rec]
          have e: "err_at f cp (At v') = abs (cp - p_value p)"
            by (simp add: err_at_def price_of_def Inr)
          have "es' \<noteq> [] \<longrightarrow> precision \<le> abs (cp - p_value p) \<and> abs (cp - p_value p) \<le> m"
            using ih by (auto simp: newton_guard_def)
          then have "improving precision m (map (err_at f cp) es)"
            using ih improving_cons[of precision "abs (cp - p_value p)" m "map (err_at f cp) es'"]
            by (simp add: es e)
          moreover have "int (length es) \<le> max 0 (max_steps - countr)"
            using ih lt by (simp add: es)
          ultimately show ?thesis using guard by simp
        qed
      qed
    qed
  qed
qed

section \<open>The solver\<close>




section \<open>Runs of the solver on numbers\<close>

lemma sqrt_2pi_ge_2: "2 \<le> sqrt (2 * pi)"
proof -
  have "sqrt 4 \<le> sqrt (2 * pi)" using pi_ge_two by (intro real_sqrt_le_mono) simp
  then show ?thesis by simp
qed

lemma approx_at_the_money:
  "0 \<le> cp \<Longrightarrow> vol_implicite_approx option_type 1 1 1 0 0 cp = Inr (sqrt (2 * pi) * cp)"
  by (simp add: vol_implicite_approx_def Let_def)

lemma clamp_sqrt_2pi: "min MAX_V (max MIN_V (sqrt (2 * pi))) = 1"
  using sqrt_2pi_ge_2 by (simp add: MIN_V_def MAX_V_def)

lemmas run_simps =
  newton_vol_implicite_def approx_at_the_money clamp_sqrt_2pi p_value_def p_vega_def
  newton_loop.simps newton_guard_def MIN_V_def MAX_V_def newton_finish_def
  rech_dichotomique_vol_implicite_def rech_loop.simps Let_def

lemma overshoot_run:
  "newton_vol_implicite overshoot_fn ''c'' 1 1 1 0 0 1 (1 / 100000) 100
     = (map At [1, 1 / 2, 201 / 400, 201 / 400, 1, 9 / 10], Inr (9 / 10))"
  using sqrt_2pi_ge_2 pi_ge_two by (simp add: run_simps overshoot_fn_def)

lemma flat_vega_run:
  "newton_vol_implicite flat_vega_fn ''c'' 1 1 1 0 0 0 (1 / 100000) 100
     = (map At [1 / 200, 201 / 400, 1 / 200, 201 / 400, 1 / 2], Inr (1 / 2))"
  by (simp add: run_simps flat_vega_fn_def)

lemma linear_run:
  "newton_vol_implicite linear_fn ''c'' 1 1 1 0 0 0 (1 / 100000) 100
     = (map At [1 / 200, 1 / 2], Inr (1 / 2))"
  by (simp add: run_simps linear_fn_def)

lemma zigzag_loop_run:
  "newton_loop (zigzag_fn ''c'' 1 1 1 0 0) (1 / 2) (1 / 100000) 100 1 1 2 (1 / 2) 0
     = ([At (3 / 4), At (1 / 8)], Inr (1 / 8, 1 / 8))"
  by (simp add: run_simps zigzag_fn_def)

section \<open>Properties of the solver\<close>

text \<open>
  C1: the Newton-Raphson loop runs only while its guard
  \<open>precision \<le> |cp - value| \<le> min_diff\<close>, \<open>countr < max_steps\<close> holds, with \<open>min_diff\<close>
  kept the smallest error seen so far.  Of every run of the loop, from any state: the
  price error of each evaluation but the last is at least \<open>precision\<close> and at most the
  smallest error before it (\<open>improving\<close>), so an evaluation whose error exceeds the
  smallest error seen so far is the last one; the loop evaluates only if the guard holds at
  its start, and at most \<open>max_steps - countr\<close> times.  When the guard fails no iteration
  is made; an update step that stays in the band and whose price error exceeds \<open>min_diff\<close>
  is the last one; and when the error after the loop is not below \<open>precision\<close>, the result
  is that of the bisection.
\<close>

theorem newton_stops_on_worse_step:
  "(newton_loop (val_fn option_type fs x t r b) cp precision max_steps v val vega min_diff
        countr = (es, out) \<longrightarrow>
      improving precision min_diff (map (err_at (val_fn option_type fs x t r b) cp) es)
      \<and> (es \<noteq> [] \<longrightarrow>
            precision \<le> abs (cp - val) \<and> abs (cp - val) \<le> min_diff \<and> countr < max_steps)
      \<and> int (length es) \<le> max 0 (max_steps - countr))
   \<and> (\<not> (precision \<le> abs (cp - val) \<and> abs (cp - val) \<le> min_diff \<and> countr < max_steps) \<longrightarrow>
      newton_loop (val_fn option_type fs x t r b) cp precision max_steps v val vega min_diff
        countr = ([], Inr (v, val)))
   \<and> (precision \<le> abs (cp - val) \<and> abs (cp - val) \<le> min_diff \<and> countr < max_steps
        \<and> vega \<noteq> 0 \<and> v' = v - (val - cp) / vega \<and> MIN_V \<le> v' \<and> v' \<le> MAX_V
        \<and> val_fn option_type fs x t r b v' = Inr p \<and> min_diff < abs (cp - p_value p) \<longrightarrow>
      newton_loop (val_fn option_type fs x t r b) cp precision max_steps v val vega min_diff
        countr = ([At v'], Inr (v', p_value p)))
   \<and> (\<not> abs (cp - val) < precision \<longrightarrow>
      newton_finish val_fn option_type fs x t r b cp precision max_steps v val
        = rech_dichotomique_vol_implicite val_fn option_type fs x t r b cp precision
            max_steps)"
proof (intro conjI impI)
  assume run: "newton_loop (val_fn option_type fs x t r b) cp precision max_steps v val vega
                 min_diff countr = (es, out)"
  note tr = newton_loop_trace[OF run]
  show "improving precision min_diff (map (err_at (val_fn option_type fs x t r b) cp) es)"
    using tr by simp
  show "int (length es) \<le> max 0 (max_steps - countr)" using tr by simp
  assume "es \<noteq> []"
  then have g: "newton_guard cp precision max_steps val min_diff countr" using tr by simp
  from g show "precision \<le> abs (cp - val)" by (simp add: newton_guard_def)
  from g show "abs (cp - val) \<le> min_diff" by (simp add: newton_guard_def)
  from g show "countr < max_steps" by (simp add: newton_guard_def)
next
  assume "\<not> (precision \<le> abs (cp - val) \<and> abs (cp - val) \<le> min_diff \<and> countr < max_steps)"
  then have "\<not> newton_guard cp precision max_steps val min_diff countr"
    by (simp add: newton_guard_def)
  then show "newton_loop (val_fn option_type fs x t r b) cp precision max_steps v val vega
               min_diff countr = ([], Inr (v, val))"
    by (rule newton_loop_stop)
next
  assume a: "precision \<le> abs (cp - val) \<and> abs (cp - val) \<le> min_diff \<and> countr < max_steps
        \<and> vega \<noteq> 0 \<and> v' = v - (val - cp) / vega \<and> MIN_V \<le> v' \<and> v' \<le> MAX_V
        \<and> val_fn option_type fs x t r b v' = Inr p \<and> min_diff < abs (cp - p_value p)"
  then have guard: "newton_guard cp precision max_steps val min_diff countr"
    and nz: "vega \<noteq> 0"
    and nb: "\<not> (v - (val - cp) / vega > MAX_V \<or> v - (val - cp) / vega < MIN_V)"
    and fv: "val_fn option_type fs x t r b (v - (val - cp) / vega) = Inr p"
    by (auto simp: newton_guard_def)
  have ng: "\<not> newton_guard cp precision max_steps (p_value p)
               (min (abs (cp - p_value p)) min_diff) (countr + 1)"
    using a by (simp add: newton_guard_def)
  show "newton_loop (val_fn option_type fs x t r b) cp precision max_steps v val vega
          min_diff countr = ([At v'], Inr (v', p_value p))"
    using newton_loop_step[where f = "val_fn option_type fs x t r b", OF guard nz nb fv]
      newton_loop_stop[OF ng] a
    by simp
next
  assume "\<not> abs (cp - val) < precision"
  then show "newton_finish val_fn option_type fs x t r b cp precision max_steps v val
        = rech_dichotomique_vol_implicite val_fn option_type fs x t r b cp precision
            max_steps"
    by (simp add: newton_finish_def)
qed

theorem newton_stops_on_worse_step_witness:
  "newton_loop (zigzag_fn ''c'' 1 1 1 0 0) (1 / 2) (1 / 100000) 100 1 1 2 (1 / 2) 0
     = ([At (3 / 4), At (1 / 8)], Inr (1 / 8, 1 / 8))
   \<and> map (err_at (zigzag_fn ''c'' 1 1 1 0 0) (1 / 2)) [At (3 / 4), At (1 / 8)] = [1 / 4, 3 / 8]
   \<and> improving (1 / 100000) (1 / 2) [1 / 4, 3 / 8]
   \<and> newton_loop (zigzag_fn ''c'' 1 1 1 0 0) (1 / 2) (1 / 100000) 100 (3 / 4) (3 / 4) (2 / 5)
       (1 / 4) 1 = ([At (1 / 8)], Inr (1 / 8, 1 / 8))
   \<and> newton_finish zigzag_fn ''c'' 1 1 1 0 0 (1 / 2) (1 / 100000) 100 (1 / 8) (1 / 8)
     = rech_dichotomique_vol_implicite zigzag_fn ''c'' 1 1 1 0 0 (1 / 2) (1 / 100000) 100"
proof -
  have errs: "map (err_at (zigzag_fn ''c'' 1 1 1 0 0) (1 / 2)) [At (3 / 4), At (1 / 8)]
                = [1 / 4, 3 / 8]"
    by (simp add: err_at_def price_of_def zigzag_fn_def p_value_def)
  note a = newton_stops_on_worse_step[where val_fn = zigzag_fn and option_type = "''c''"
      and fs = 1 and x = 1 and t = 1 and r = 0 and b = 0 and cp = "1 / 2"
      and precision = "1 / 100000" and max_steps = 100 and v = 1 and val = 1 and vega = 2
      and min_diff = "1 / 2" and countr = 0 and es = "[At (3 / 4), At (1 / 8)]"
      and out = "Inr (1 / 8, 1 / 8)"]
  note b = newton_stops_on_worse_step[where val_fn = zigzag_fn and option_type = "''c''"
      and fs = 1 and x = 1 and t = 1 and r = 0 and b = 0 and cp = "1 / 2"
      and precision = "1 / 100000" and max_steps = 100 and v = "3 / 4" and val = "3 / 4"
      and vega = "2 / 5" and min_diff = "1 / 4" and countr = 1 and v' = "1 / 8"
      and p = "(1 / 8, 0, 0, 0, 2 / 5, 0)"]
  note c = newton_stops_on_worse_step[where val_fn = zigzag_fn and option_type = "''c''"
      and fs = 1 and x = 1 and t = 1 and r = 0 and b = 0 and cp = "1 / 2"
      and precision = "1 / 100000" and max_steps = 100 and v = "1 / 8" and val = "1 / 8"]
  have run2: "newton_loop (zigzag_fn ''c'' 1 1 1 0 0) (1 / 2) (1 / 100000) 100 (3 / 4) (3 / 4)
                (2 / 5) (1 / 4) 1 = ([At (1 / 8)], Inr (1 / 8, 1 / 8))"
  proof -
    have z: "zigzag_fn ''c'' 1 1 1 0 0 (1 / 8) = Inr (1 / 8, 0, 0, 0, 2 / 5, 0)"
      by (simp add: zigzag_fn_def)
    have pv: "p_value (1 / 8, 0, 0, 0, 2 / 5, 0) = 1 / 8" by (simp add: p_value_def)
    show ?thesis using b z unfolding pv by (simp add: MIN_V_def MAX_V_def)
  qed
  have imp: "improving (1 / 100000) (1 / 2) [1 / 4, 3 / 8]"
    using a zigzag_loop_run unfolding errs by simp
  have fin: "newton_finish zigzag_fn ''c'' 1 1 1 0 0 (1 / 2) (1 / 100000) 100 (1 / 8) (1 / 8)
     = rech_dichotomique_vol_implicite zigzag_fn ''c'' 1 1 1 0 0 (1 / 2) (1 / 100000) 100"
    using c by simp
  show ?thesis
    using zigzag_loop_run errs imp run2 fin by (intro conjI)
qed



lemma approx_far_out_of_the_money:
  "\<exists>w. vol_implicite_approx ''c'' 1 100 (1 / 1000) 0 0 0 = Inr w \<and> 1 \<le> w"
proof -
  define s where "s = sqrt ((99 / 2)\<^sup>2 + 99\<^sup>2 / pi)"
  define q where "q = sqrt (1 / 1000 :: real)"
  define w where "w = (sqrt (2 * pi) / 101 * (99 / 2 + s)) / q"
  have q_pos: "0 < q" by (simp add: q_def)
  have "q \<le> sqrt 1" unfolding q_def by (intro real_sqrt_le_mono) simp
  then have q_le: "q \<le> 1" by simp
  have "sqrt ((99 / 2)\<^sup>2) \<le> s" unfolding s_def by (intro real_sqrt_le_mono) simp
  then have s_ge: "99 / 2 \<le> s" by simp
  have "2 / 101 * (99 / 2 + 99 / 2) \<le> sqrt (2 * pi) / 101 * (99 / 2 + s)"
    using sqrt_2pi_ge_2 s_ge by (intro mult_mono) simp_all
  then have n_ge: "1 \<le> sqrt (2 * pi) / 101 * (99 / 2 + s)" by simp
  have "1 \<le> (sqrt (2 * pi) / 101 * (99 / 2 + s)) / 1" using n_ge by simp
  also have "\<dots> \<le> (sqrt (2 * pi) / 101 * (99 / 2 + s)) / q"
    using n_ge q_pos q_le by (intro divide_left_mono) simp_all
  finally have w_ge: "1 \<le> w" by (simp add: w_def)
  have "vol_implicite_approx ''c'' 1 100 (1 / 1000) 0 0 0 = Inr w"
    using q_pos by (simp add: vol_implicite_approx_def Let_def w_def s_def q_def)
  then show ?thesis using w_ge by blast
qed

text \<open>
  C2: every volatility at which the solver evaluates the pricing function lies in
  \<open>[MIN_V, MAX_V]\<close>.  It does not hold of the code.  For the call \<open>fs = 1\<close>, \<open>x = 100\<close>,
  \<open>t = 0.001\<close>, \<open>r = b = 0\<close>, with \<open>cp = 0\<close> and \<open>precision = 0\<close>, the initial estimate
  is clamped to \<open>1\<close>, where \<open>d1\<close> is about \<open>-145.6\<close> and \<open>norm.cdf\<close> and \<open>norm.pdf\<close>
  underflow: \<open>_gbs\<close> returns the value \<open>0.0\<close> and the vega \<open>0.0\<close>, as it does at every
  volatility of the band (\<open>underflow_fn\<close>).  The guard \<open>0 \<le> 0 \<le> 0\<close> holds, the update
  \<open>1 - 0.0 / 0.0\<close> is NaN, the band test lets it through and the pricing function is
  called at NaN.  The bisection then evaluates at \<open>0.5025\<close> and raises.  (With a positive
  \<open>precision\<close> the guard excludes \<open>value = cp\<close>, and every evaluation point and every
  returned volatility is a number of the band: lemma \<open>newton_vol_implicite_ok\<close>.)
\<close>

theorem newton_evaluates_at_nan:
  "newton_vol_implicite underflow_fn ''c'' 100 1 (1 / 1000) 0 0 0 0 100
     = ([At 1, At_NaN, At (201 / 400)], Inl (GBS_CalculationError (201 / 400) 0 0))
   \<and> \<not> in_band_pt At_NaN"
proof -
  obtain w where ap: "vol_implicite_approx ''c'' 1 100 (1 / 1000) 0 0 0 = Inr w"
    and w_ge: "1 \<le> w"
    using approx_far_out_of_the_money by blast
  have clamp: "min MAX_V (max MIN_V w) = 1" using w_ge by (simp add: MIN_V_def MAX_V_def)
  have out: "w \<le> MIN_V \<or> w \<ge> MAX_V" using w_ge by (simp add: MAX_V_def)
  have loop: "newton_loop (underflow_fn ''c'' 1 100 (1 / 1000) 0 0) 0 0 100 1 0 0 0 0
                = ([At_NaN], Inl Non_finite)"
    by (subst newton_loop.simps) (simp add: newton_guard_def)
  have bis: "rech_dichotomique_vol_implicite underflow_fn ''c'' 1 100 (1 / 1000) 0 0 0 0 100
               = ([201 / 400], Inl (GBS_CalculationError (201 / 400) 0 0))"
    using out
    by (simp add: rech_dichotomique_vol_implicite_def ap underflow_fn_def p_value_def
        rech_loop.simps MIN_V_def MAX_V_def)
  have "newton_vol_implicite underflow_fn ''c'' 100 1 (1 / 1000) 0 0 0 0 100
          = ([At 1, At_NaN, At (201 / 400)], Inl (GBS_CalculationError (201 / 400) 0 0))"
    unfolding newton_vol_implicite_def ap sum.case Let_def clamp
    by (simp add: underflow_fn_def p_value_def p_vega_def loop bis)
  then show ?thesis by (simp add: in_band_pt_def)
qed

text \<open>
  C4: when an update step of the Newton-Raphson loop gives a volatility above \<open>MAX_V\<close>
  or below \<open>MIN_V\<close>, the loop ends there: it evaluates the pricing function no more,
  hands on the volatility unclamped, and the code after the loop, whose convergence test
  fails, returns the result of the bisection.
\<close>

theorem newton_leaves_band:
  assumes "newton_guard cp precision max_steps val min_diff countr"
    and "vega \<noteq> 0"
    and "v' = v - (val - cp) / vega"
    and "v' > MAX_V \<or> v' < MIN_V"
  shows "newton_loop (val_fn option_type fs x t r b) cp precision max_steps v val vega min_diff
           countr = ([], Inr (v', val))
       \<and> newton_finish val_fn option_type fs x t r b cp precision max_steps v' val
           = rech_dichotomique_vol_implicite val_fn option_type fs x t r b cp precision max_steps"
proof -
  have "\<not> abs (cp - val) < precision" using assms(1) by (simp add: newton_guard_def)
  then show ?thesis
    using newton_loop_break[OF assms(1,2), of v "val_fn option_type fs x t r b"] assms(3,4)
    by (simp add: newton_finish_def)
qed

theorem newton_leaves_band_witness:
  "newton_loop (flat_vega_fn ''c'' 1 1 1 0 0) 0 (1 / 100000) 100 (1 / 200) (- (99 / 200)) (1 / 4)
       (99 / 200) 0 = ([], Inr (397 / 200, - (99 / 200)))
   \<and> newton_finish flat_vega_fn ''c'' 1 1 1 0 0 0 (1 / 100000) 100 (397 / 200) (- (99 / 200))
       = rech_dichotomique_vol_implicite flat_vega_fn ''c'' 1 1 1 0 0 0 (1 / 100000) 100"
proof -
  have g: "newton_guard 0 (1 / 100000) 100 (- (99 / 200)) (99 / 200) 0"
    by (simp add: newton_guard_def)
  have v': "(397 / 200 :: real) = 1 / 200 - (- (99 / 200) - 0) / (1 / 4)" by simp
  have out: "(397 / 200 :: real) > MAX_V \<or> (397 / 200 :: real) < MIN_V"
    by (simp add: MAX_V_def)
  show ?thesis
    using newton_leaves_band[OF g _ v' out, of flat_vega_fn "''c''" 1 1 1 0 0] by simp
qed

lemma rech_dichotomique_first_price:
  assumes "vol_implicite_approx option_type fs x t r b cp = Inr v_approx"
    and "v_approx \<le> MIN_V \<or> v_approx \<ge> MAX_V"
    and "val_fn option_type fs x t r b ((MIN_V + MAX_V) / 2) = Inr p"
    and "abs (cp - p_value p) = precision"
  shows "rech_dichotomique_vol_implicite val_fn option_type fs x t r b cp precision max_steps
           = ([(MIN_V + MAX_V) / 2],
              Inl (GBS_CalculationError ((MIN_V + MAX_V) / 2) precision precision))"
  using assms by (simp add: rech_dichotomique_vol_implicite_def rech_loop_stop)

text \<open>
  C3: the code at a price difference equal to \<open>precision\<close>.  For an at-the-money call
  (\<open>fs = x = 1\<close>, \<open>t = 1\<close>, \<open>r = b = 0\<close>) with target price \<open>0\<close>, the bisection starts at
  the midpoint \<open>201/400\<close> of the band; with \<open>precision\<close> equal to the price difference
  there, the loop makes no iteration, and with \<open>100\<close> steps left the function raises
  \<open>GBS_CalculationError\<close>.
\<close>

theorem bisection_raises_at_exact_precision:
  "rech_dichotomique_vol_implicite gbs_val_fn ''c'' 1 1 1 0 0 0
       (abs (0 - price_of (gbs_val_fn ''c'' 1 1 1 0 0 (201 / 400)))) 100
     = ([201 / 400],
        Inl (GBS_CalculationError (201 / 400)
               (abs (0 - price_of (gbs_val_fn ''c'' 1 1 1 0 0 (201 / 400))))
               (abs (0 - price_of (gbs_val_fn ''c'' 1 1 1 0 0 (201 / 400))))))"
proof -
  obtain p where p: "gbs_val_fn ''c'' 1 1 1 0 0 (201 / 400) = Inr p"
    by (simp add: gbs_val_fn_def gbs_def Let_def)
  have mid: "(MIN_V + MAX_V) / 2 = 201 / 400" by (simp add: MIN_V_def MAX_V_def)
  have ap: "vol_implicite_approx ''c'' 1 1 1 0 0 0 = Inr 0"
    using approx_at_the_money[of 0 "''c''"] by simp
  have "rech_dichotomique_vol_implicite gbs_val_fn ''c'' 1 1 1 0 0 0 (abs (0 - p_value p)) 100
         = ([(MIN_V + MAX_V) / 2],
            Inl (GBS_CalculationError ((MIN_V + MAX_V) / 2) (abs (0 - p_value p))
                   (abs (0 - p_value p))))"
    by (rule rech_dichotomique_first_price[OF ap]) (simp_all add: MIN_V_def MAX_V_def p)
  with p mid show ?thesis by (simp add: price_of_def)
qed

section \<open>The round trip on an at-the-money call\<close>












section \<open>Option types other than \<open>''c''\<close>\<close>

lemma gbs_val_fn_not_call:
  "option_type \<noteq> ''c'' \<Longrightarrow> gbs_val_fn option_type = gbs_val_fn ''p''"
  by (intro ext) (simp add: gbs_val_fn_def gbs_def Let_def)

lemma approx_not_call:
  "option_type \<noteq> ''c'' \<Longrightarrow>
   vol_implicite_approx option_type fs x t r b cp = vol_implicite_approx ''p'' fs x t r b cp"
  by (simp add: vol_implicite_approx_def Let_def)

text \<open>
  C9: an option type other than \<open>''c''\<close> is priced as a put.  For every such string,
  \<open>''p''\<close> or not, and every input: \<open>_gbs\<close> returns or raises exactly what it does for
  \<open>''p''\<close>, the only difference being the diagnostic of \<open>_test_option_type\<close> printed
  first, and the pricing function of the solver, the bisection and the whole solver on
  \<open>_gbs\<close> give the results they give for \<open>''p''\<close>.  When the numeric inputs are within
  the domain limits (none of them is reported), \<open>_gbs\<close> raises nothing, prints the
  diagnostic of the option type only and returns the six formulas of the put, and the
  initial estimate of the solver is the one computed with the payoff of the put.
\<close>

theorem invalid_option_type_priced_as_put:
  assumes "option_type \<noteq> ''c''"
  shows "snd (gbs option_type fs x t r b v) = snd (gbs ''p'' fs x t r b v)
       \<and> fst (gbs option_type fs x t r b v)
           = test_option_type option_type @ fst (gbs ''p'' fs x t r b v)
       \<and> gbs_val_fn option_type = gbs_val_fn ''p''
       \<and> vol_implicite_approx option_type fs x t r b cp
           = vol_implicite_approx ''p'' fs x t r b cp
       \<and> rech_dichotomique_vol_implicite gbs_val_fn option_type fs x t r b cp precision max_steps
           = rech_dichotomique_vol_implicite gbs_val_fn ''p'' fs x t r b cp precision max_steps
       \<and> gbs_vol_implicite option_type fs x t r b cp precision max_steps
           = gbs_vol_implicite ''p'' fs x t r b cp precision max_steps
       \<and> (gbs_test_inputs ''p'' fs x t r b v = [] \<longrightarrow>
            snd (gbs option_type fs x t r b v) = Inr (put_formulas fs x t r b v)
            \<and> fst (gbs option_type fs x t r b v) = test_option_type option_type
            \<and> gbs_val_fn option_type fs x t r b v = Inr (put_formulas fs x t r b v)
            \<and> vol_implicite_approx option_type fs x t r b cp
                = Inr (put_estimate fs x t r b cp))"
proof -
  note vf = gbs_val_fn_not_call[OF assms] and ap = approx_not_call[OF assms]
  have c1: "snd (gbs option_type fs x t r b v) = snd (gbs ''p'' fs x t r b v)"
    using assms by (simp add: gbs_def Let_def)
  have c2: "fst (gbs option_type fs x t r b v)
           = test_option_type option_type @ fst (gbs ''p'' fs x t r b v)"
    by (simp add: gbs_def gbs_test_inputs_def test_option_type_def)
  have c3: "rech_dichotomique_vol_implicite gbs_val_fn option_type fs x t r b cp precision
                   max_steps
           = rech_dichotomique_vol_implicite gbs_val_fn ''p'' fs x t r b cp precision max_steps"
    unfolding rech_dichotomique_vol_implicite_def vf ap ..
  have c4: "gbs_vol_implicite option_type fs x t r b cp precision max_steps
           = gbs_vol_implicite ''p'' fs x t r b cp precision max_steps"
    unfolding gbs_vol_implicite_def newton_vol_implicite_def newton_finish_def
      rech_dichotomique_vol_implicite_def vf ap ..
  have c5: "snd (gbs option_type fs x t r b v) = Inr (put_formulas fs x t r b v)
            \<and> fst (gbs option_type fs x t r b v) = test_option_type option_type
            \<and> gbs_val_fn option_type fs x t r b v = Inr (put_formulas fs x t r b v)
            \<and> vol_implicite_approx option_type fs x t r b cp
                = Inr (put_estimate fs x t r b cp)"
    if rng: "gbs_test_inputs ''p'' fs x t r b v = []"
  proof -
    have bounds: "MIN_X \<le> x" "MIN_FS \<le> fs" "MIN_T \<le> t" "MIN_V \<le> v"
      using rng by (simp_all add: gbs_test_inputs_def test_option_type_def split: if_splits)
    then have pos: "0 < x" "0 < fs" "0 < t" "0 < v"
      by (simp_all add: MIN_X_def MIN_FS_def MIN_T_def MIN_V_def)
    have st: "0 < sqrt t" using pos by simp
    have den: "0 < fs * exp ((b - r) * t) + x * exp (- r * t)"
      using pos by (intro add_pos_pos mult_pos_pos) simp_all
    have q: "\<not> fs / x \<le> 0" using pos by (simp add: not_le)
    have ret: "snd (gbs option_type fs x t r b v) = Inr (put_formulas fs x t r b v)"
      using assms pos st q
      by (simp add: gbs_def Let_def put_formulas_def spec_d1_def spec_d2_def power2_eq_square)
    have diag: "fst (gbs option_type fs x t r b v) = test_option_type option_type"
      using c2 rng by (simp add: gbs_def)
    have est: "vol_implicite_approx option_type fs x t r b cp
                = Inr (put_estimate fs x t r b cp)"
      using assms pos st den
      by (simp add: vol_implicite_approx_def put_estimate_def Let_def)
    show ?thesis using ret diag est by (simp add: gbs_val_fn_def)
  qed
  show ?thesis using c1 c2 vf ap c3 c4 c5 by blast
qed

theorem invalid_option_type_priced_as_put_witness:
  "gbs_test_inputs ''p'' 100 100 1 0 0 (1 / 5) = []
   \<and> snd (gbs ''x'' 100 100 1 0 0 (1 / 5)) = Inr (put_formulas 100 100 1 0 0 (1 / 5))
   \<and> p_value (put_formulas 100 100 1 0 0 (1 / 5))
       = 100 * norm_cdf (1 / 10) - 100 * norm_cdf (- (1 / 10))
   \<and> fst (gbs ''x'' 100 100 1 0 0 (1 / 5)) = [Invalid_option_type ''x'']
   \<and> vol_implicite_approx ''x'' 100 100 1 0 0 8 = Inr (put_estimate 100 100 1 0 0 8)
   \<and> gbs_vol_implicite ''call'' 100 100 1 0 0 8 (1 / 100000) 100
       = gbs_vol_implicite ''p'' 100 100 1 0 0 8 (1 / 100000) 100"
proof -
  have a: "''x'' \<noteq> ''c''" and b: "''call'' \<noteq> ''c''" by simp_all
  have rng: "gbs_test_inputs ''p'' 100 100 1 0 0 (1 / 5) = []"
    by (simp add: gbs_test_inputs_def test_option_type_def limites_defs)
  have pv: "p_value (put_formulas 100 100 1 0 0 (1 / 5))
       = 100 * norm_cdf (1 / 10) - 100 * norm_cdf (- (1 / 10))"
    by (simp add: p_value_def put_formulas_def spec_d1_def spec_d2_def power2_eq_square)
  have tx: "test_option_type ''x'' = [Invalid_option_type ''x'']"
    by (simp add: test_option_type_def)
  note t1 = invalid_option_type_priced_as_put[OF a, where fs = 100 and x = 100 and t = 1
      and r = 0 and b = 0 and v = "1 / 5" and cp = 8]
  note t2 = invalid_option_type_priced_as_put[OF b, where fs = 100 and x = 100 and t = 1
      and r = 0 and b = 0 and cp = 8 and precision = "1 / 100000" and max_steps = 100]
  show ?thesis
    using t1 t2 rng pv unfolding tx by blast
qed

end
